theory Spec2Isabelle
  imports Complex_Main
begin

section \<open>Data model of \<open>src/server.js\<close>\<close>

text \<open>
  The module keeps its state in the map \<open>activeCalls\<close> (call id to session object), in the
  session objects themselves, which are mutated in place, and in the optional MongoDB
  handle \<open>db\<close>. The embedding threads one \<open>world\<close> record through every operation.
  Session objects live in an explicit store (\<open>heap\<close>, reference to object), because
  \<open>initializeCall\<close> hands the object out and \<open>endCall\<close> mutates it just before it
  deletes the map entry.
\<close>

datatype role = User | Assistant | System

text \<open>An entry of \<open>conversationHistory\<close>: \<open>{role, content, timestamp}\<close>.\<close>

record turn =
  role :: role
  content :: string
  timestamp :: nat

text \<open>An entry of the \<open>messages\<close> array sent to the chat completion: \<open>{role, content}\<close>.\<close>

record chat_message =
  msg_role :: role
  msg_content :: string

text \<open>A value of the \<open>supportedLanguages\<close> table.\<close>

record language_entry =
  name :: string
  voice :: string
  whisperLang :: string

text \<open>
  The object literal built by \<open>initializeCall\<close>; \<open>endTime\<close> is the property that
  \<open>endCall\<close> adds later, so it is absent (\<open>None\<close>) until then.
\<close>

record callSession =
  callSid :: string
  fromNumber :: string
  language :: string
  startTime :: nat
  conversationHistory :: "turn list"
  audioBuffer :: "nat list"
  isActive :: bool
  contextWindow :: "chat_message list"
  endTime :: "nat option"

text \<open>Documents of the collections \<open>call_logs\<close> and \<open>conversations\<close>.\<close>

datatype call_event =
    call_initiated string string nat
  | call_ended int nat

record call_log =
  log_callSid :: string
  log_event :: call_event
  log_timestamp :: nat

record conversation_log =
  conv_callSid :: string
  conv_userMessage :: string
  conv_aiResponse :: string
  conv_timestamp :: nat

record database =
  call_logs :: "call_log list"
  conversations :: "conversation_log list"

text \<open>
  The world: \<open>activeCalls\<close> maps a call id to the reference of its session object,
  \<open>heap\<close> holds the objects, \<open>next_ref\<close> is the next unused reference, \<open>clock\<close> is
  what \<open>new Date()\<close> reads (milliseconds), \<open>db\<close> is \<open>None\<close> while MongoDB is not
  connected. \<open>llm_calls\<close> records the \<open>messages\<close> argument of every call of
  \<open>openai.chat.completions.create\<close> and \<open>sleeps\<close> the delay of every backoff wait,
  both in the order they happen.

  One operation runs at a time: no other request is interleaved at an \<open>await\<close>. Time
  passes in the model only while a backoff wait lasts, and by exactly the delay asked
  for; console output is not part of the world.
\<close>

record world =
  activeCalls :: "string \<Rightarrow> nat option"
  heap :: "nat \<Rightarrow> callSession"
  next_ref :: nat
  clock :: nat
  db :: "database option"
  llm_calls :: "chat_message list list"
  sleeps :: "nat list"

text \<open>
  The chat completion provider is outside the program. It is a parameter of the model:
  its answer may depend on how many calls came before and on the messages it is given.
  \<open>ProviderError\<close> stands for every way in which the \<open>await\<close> or the following read of
  \<open>completion.choices[0].message.content\<close> throws; \<open>Completion c\<close> is a reply whose
  first choice has content \<open>c\<close>.
\<close>

datatype completion = ProviderError | Completion string

type_synonym provider = "nat \<Rightarrow> chat_message list \<Rightarrow> completion"

text \<open>What the \<open>try\<close> block of \<open>generateResponse\<close> can throw.\<close>

datatype js_error =
    SessionNotFound
  | LanguageTypeError
  | LLMError

section \<open>The language table\<close>

definition supportedLanguages :: "(string \<times> language_entry) list" where
  "supportedLanguages =
    [(''en'', \<lparr>name = ''English'', voice = ''alloy'', whisperLang = ''en''\<rparr>),
     (''es'', \<lparr>name = ''Spanish'', voice = ''nova'', whisperLang = ''es''\<rparr>),
     (''fr'', \<lparr>name = ''French'', voice = ''shimmer'', whisperLang = ''fr''\<rparr>),
     (''de'', \<lparr>name = ''German'', voice = ''echo'', whisperLang = ''de''\<rparr>),
     (''it'', \<lparr>name = ''Italian'', voice = ''fable'', whisperLang = ''it''\<rparr>),
     (''pt'', \<lparr>name = ''Portuguese'', voice = ''onyx'', whisperLang = ''pt''\<rparr>)]"

text \<open>
  \<open>supportedLanguages\<close> is a plain object literal, so a property read also finds the
  members it inherits from \<open>Object.prototype\<close>. For each of those keys the table below
  gives what \<open>.name\<close> of the inherited member renders to inside a template literal: the
  name of the function, and \<open>undefined\<close> for \<open>__proto__\<close>, whose value is the prototype
  object itself. None of them has a \<open>voice\<close> or a \<open>whisperLang\<close> property.
\<close>

definition inheritedNames :: "(string \<times> string) list" where
  "inheritedNames =
    [(''constructor'', ''Object''),
     (''__defineGetter__'', ''__defineGetter__''),
     (''__defineSetter__'', ''__defineSetter__''),
     (''hasOwnProperty'', ''hasOwnProperty''),
     (''__lookupGetter__'', ''__lookupGetter__''),
     (''__lookupSetter__'', ''__lookupSetter__''),
     (''isPrototypeOf'', ''isPrototypeOf''),
     (''propertyIsEnumerable'', ''propertyIsEnumerable''),
     (''toString'', ''toString''),
     (''valueOf'', ''valueOf''),
     (''__proto__'', ''undefined''),
     (''toLocaleString'', ''toLocaleString'')]"

text \<open>
  \<open>this.supportedLanguages[language].name\<close> as read by \<open>generateResponse\<close>: \<open>None\<close> when
  the lookup gives \<open>undefined\<close> and the property read throws a TypeError.
\<close>

definition languageName :: "string \<Rightarrow> string option" where
  "languageName l =
    (case map_of supportedLanguages l of
       Some e \<Rightarrow> Some (name e)
     | None \<Rightarrow> map_of inheritedNames l)"



section \<open>Logging\<close>

text \<open>
  Both logging functions return at once when \<open>db\<close> is not set and catch whatever the
  insert throws, so they never raise; the model keeps the document of a successful
  insert. The random \<open>sessionId\<close> of a conversation document is left out.
\<close>

definition logCallEvent :: "string \<Rightarrow> call_event \<Rightarrow> world \<Rightarrow> world" where
  "logCallEvent sid ev w =
    (case db w of
       None \<Rightarrow> w
     | Some d \<Rightarrow>
         w\<lparr>db := Some (d\<lparr>call_logs := call_logs d @
              [\<lparr>log_callSid = sid, log_event = ev, log_timestamp = clock w\<rparr>]\<rparr>)\<rparr>)"

definition logConversation :: "string \<Rightarrow> string \<Rightarrow> string \<Rightarrow> world \<Rightarrow> world" where
  "logConversation sid userMessage aiResponse w =
    (case db w of
       None \<Rightarrow> w
     | Some d \<Rightarrow>
         w\<lparr>db := Some (d\<lparr>conversations := conversations d @
              [\<lparr>conv_callSid = sid, conv_userMessage = userMessage,
                conv_aiResponse = aiResponse, conv_timestamp = clock w\<rparr>]\<rparr>)\<rparr>)"

section \<open>The class \<open>AIVoiceCallAssistant\<close>\<close>

text \<open>
  \<open>initializeCall(callSid, fromNumber, language = 'en')\<close>: the language argument is
  \<open>None\<close> when the caller leaves it out. The new object is stored under the call id
  whatever the map held before, and its reference is returned.
\<close>

definition initializeCall :: "string \<Rightarrow> string \<Rightarrow> string option \<Rightarrow> world \<Rightarrow> nat \<times> world" where
  "initializeCall sid from_number lang_arg w =
    (let lang = (case lang_arg of None \<Rightarrow> ''en'' | Some l \<Rightarrow> l);
         r = next_ref w;
         session = \<lparr>callSid = sid, fromNumber = from_number, language = lang,
                    startTime = clock w, conversationHistory = [], audioBuffer = [],
                    isActive = True, contextWindow = [], endTime = None\<rparr>;
         w1 = w\<lparr>activeCalls := (activeCalls w)(sid \<mapsto> r),
                heap := (heap w)(r := session),
                next_ref := Suc r\<rparr>
     in (r, logCallEvent sid (call_initiated from_number lang (clock w1)) w1))"

text \<open>\<open>callSession.conversationHistory.push(t)\<close> on the object at reference \<open>r\<close>.\<close>

definition push_turn :: "nat \<Rightarrow> turn \<Rightarrow> world \<Rightarrow> world" where
  "push_turn r t w =
    w\<lparr>heap := (heap w)(r := (heap w r)
        \<lparr>conversationHistory := conversationHistory (heap w r) @ [t]\<rparr>)\<rparr>"

text \<open>\<open>xs.slice(-n)\<close>: the last \<open>n\<close> elements, all of them when there are fewer.\<close>

definition slice_last :: "nat \<Rightarrow> 'a list \<Rightarrow> 'a list" where
  "slice_last n xs = drop (length xs - n) xs"

text \<open>The template literal of the system message, with its line breaks and indentation.\<close>

definition systemPrompt :: "string \<Rightarrow> string" where
  "systemPrompt language_name =
    ''You are an AI voice assistant speaking in '' @ language_name @ ''. '' @ [CHR 0x0A] @
    ''                    Keep responses conversational, natural, and under 100 words. '' @ [CHR 0x0A] @
    ''                    You'' @ [CHR 0x27] @ ''re having a phone conversation, so speak as if talking directly to the person.'' @ [CHR 0x0A] @
    ''                    Be helpful, friendly, and engaging.''"

definition to_message :: "turn \<Rightarrow> chat_message" where
  "to_message t = \<lparr>msg_role = role t, msg_content = content t\<rparr>"

text \<open>The \<open>messages\<close> array: the system message, then the last ten history entries.\<close>

definition build_messages :: "string \<Rightarrow> turn list \<Rightarrow> chat_message list" where
  "build_messages language_name history =
    \<lparr>msg_role = System, msg_content = systemPrompt language_name\<rparr> #
    map to_message (slice_last 10 history)"

definition apology :: string where
  "apology = ''I'' @ [CHR 0x27] @ ''m so'' @ ''rry, I'' @ [CHR 0x27] @
    ''m having trouble processing your request right now. Could you please try again?''"

text \<open>
  The \<open>try\<close> block of \<open>generateResponse\<close>, one attempt: \<open>Inl\<close> is the exception that
  reaches the \<open>catch\<close>, together with the world as the block left it.
\<close>

definition generateResponse_try ::
  "provider \<Rightarrow> string \<Rightarrow> string \<Rightarrow> world \<Rightarrow> (js_error + string) \<times> world" where
  "generateResponse_try openai sid userMessage w =
    (case activeCalls w sid of
       None \<Rightarrow> (Inl SessionNotFound, w)
     | Some r \<Rightarrow>
        (let w1 = push_turn r \<lparr>role = User, content = userMessage, timestamp = clock w\<rparr> w
         in case languageName (language (heap w1 r)) of
              None \<Rightarrow> (Inl LanguageTypeError, w1)
            | Some language_name \<Rightarrow>
               (let messages = build_messages language_name (conversationHistory (heap w1 r));
                    w2 = w1\<lparr>llm_calls := llm_calls w1 @ [messages]\<rparr>
                in case openai (length (llm_calls w1)) messages of
                     ProviderError \<Rightarrow> (Inl LLMError, w2)
                   | Completion aiResponse \<Rightarrow>
                      (let w3 = push_turn r
                             \<lparr>role = Assistant, content = aiResponse, timestamp = clock w2\<rparr> w2
                       in (Inr aiResponse, logConversation sid userMessage aiResponse w3)))))"

text \<open>\<open>await new Promise(resolve => setTimeout(resolve, delay))\<close>.\<close>

definition setTimeout :: "nat \<Rightarrow> world \<Rightarrow> world" where
  "setTimeout delay w = w\<lparr>clock := clock w + delay, sleeps := sleeps w @ [delay]\<rparr>"

text \<open>
  \<open>generateResponse(callSid, userMessage, retryCount = 0)\<close>: the \<open>catch\<close> block calls
  the whole function again while \<open>retryCount < 3\<close>, after a wait of
  \<open>Math.pow(2, retryCount) * 1000\<close> milliseconds, and returns the apology otherwise.
\<close>

function generateResponse ::
  "provider \<Rightarrow> string \<Rightarrow> string \<Rightarrow> nat \<Rightarrow> world \<Rightarrow> string \<times> world" where
  "generateResponse openai sid userMessage retryCount w =
    (case generateResponse_try openai sid userMessage w of
       (Inr aiResponse, w') \<Rightarrow> (aiResponse, w')
     | (Inl error, w') \<Rightarrow>
         if retryCount < 3
         then generateResponse openai sid userMessage (retryCount + 1)
                (setTimeout (2 ^ retryCount * 1000) w')
         else (apology, w'))"
  by pat_completeness auto
termination
  by (relation "measure (\<lambda>(openai, sid, userMessage, retryCount, w). 3 - retryCount)") auto

declare generateResponse.simps [simp del]

text \<open>\<open>endCall(callSid)\<close>: nothing happens when the map has no entry for the id.\<close>

definition endCall :: "string \<Rightarrow> world \<Rightarrow> world" where
  "endCall sid w =
    (case activeCalls w sid of
       None \<Rightarrow> w
     | Some r \<Rightarrow>
        (let now = clock w;
             s = (heap w r)\<lparr>isActive := False, endTime := Some now\<rparr>;
             w1 = w\<lparr>heap := (heap w)(r := s)\<rparr>;
             w2 = logCallEvent sid
                    (call_ended (int now - int (startTime s)) (length (conversationHistory s))) w1
         in w2\<lparr>activeCalls := (activeCalls w2)(sid := None)\<rparr>))"

text \<open>\<open>activeCalls.get(callId)\<close> followed by a read of the object: the store's \<open>get\<close>.\<close>

definition getSession :: "world \<Rightarrow> string \<Rightarrow> callSession option" where
  "getSession w sid = map_option (heap w) (activeCalls w sid)"

section \<open>The webhook routes\<close>

text \<open>
  The parsed body of a webhook request. A field is \<open>None\<close> when the request does not
  carry it. \<open>Confidence\<close> is the number the comparison \<open>confidence < 0.5\<close> works on;
  it is \<open>None\<close> when the field is missing or does not read as a number, and the
  comparison is false then.
\<close>

record webhook_body =
  CallSid :: "string option"
  From :: "string option"
  SpeechResult :: "string option"
  Confidence :: "real option"
  CallStatus :: "string option"

text \<open>
  The TwiML documents the routes send, verb by verb, and the plain HTTP answers. The text
  of a verb is given without the white space around it, a line break inside it as one
  space.
\<close>

datatype twiml_verb = Say string | Gather string | Hangup

datatype http_response =
    Status400 string
  | Status200
  | Twiml "twiml_verb list"

text \<open>JavaScript's \<open>!x\<close> on a field that is a string or missing.\<close>

definition falsy :: "string option \<Rightarrow> bool" where
  "falsy x = (case x of None \<Rightarrow> True | Some s \<Rightarrow> s = [])"

definition low_confidence :: "real option \<Rightarrow> bool" where
  "low_confidence c = (case c of None \<Rightarrow> False | Some x \<Rightarrow> x < 0.5)"

definition repeat_twiml :: "twiml_verb list" where
  "repeat_twiml =
    [Say (''I didn'' @ [CHR 0x27] @ ''t quite catch that. Could you please repeat?''),
     Gather (''I'' @ [CHR 0x27] @ ''m listening...'')]"

definition answer_twiml :: "string \<Rightarrow> twiml_verb list" where
  "answer_twiml aiResponse =
    [Say aiResponse,
     Gather ''What else can I help you with?'',
     Say ''Thank you for calling! Have a great day!'',
     Hangup]"

definition greeting_twiml :: "twiml_verb list" where
  "greeting_twiml =
    [Say (''Hello! You'' @ [CHR 0x27] @ ''ve reached the AI Voice Assistant. I can help you with questions and have a conversation. Please speak after the tone.''),
     Gather (''I'' @ [CHR 0x27] @ ''m listening...''),
     Say (''I didn'' @ [CHR 0x27] @ ''t hear anything. Please call back if you'' @ [CHR 0x27] @ ''d like to chat!'')]"

text \<open>\<open>POST /voice/incoming\<close>: creates the session with the default language.\<close>

definition voice_incoming :: "webhook_body option \<Rightarrow> world \<Rightarrow> http_response \<times> world" where
  "voice_incoming req_body w =
    (case req_body of
       None \<Rightarrow> (Status400 ''Bad Request: No body'', w)
     | Some body \<Rightarrow>
         if falsy (CallSid body) \<or> falsy (From body)
         then (Status400 ''Bad Request: Missing CallSid or From'', w)
         else (case (CallSid body, From body) of
                 (Some sid, Some from_number) \<Rightarrow>
                    (Twiml greeting_twiml, snd (initializeCall sid from_number None w))
               | _ \<Rightarrow> (Status400 ''Bad Request: Missing CallSid or From'', w)))"

text \<open>
  \<open>POST /voice/process\<close>. The route's own \<open>catch\<close> is not a branch of the model:
  \<open>generateResponse\<close> returns a string on every path, so nothing reaches it.
\<close>

definition voice_process ::
  "provider \<Rightarrow> webhook_body option \<Rightarrow> world \<Rightarrow> http_response \<times> world" where
  "voice_process openai req_body w =
    (case req_body of
       None \<Rightarrow> (Status400 ''Bad Request: No body'', w)
     | Some body \<Rightarrow>
        (case CallSid body of
           None \<Rightarrow> (Status400 ''Bad Request: Missing CallSid'', w)
         | Some sid \<Rightarrow>
             if sid = [] then (Status400 ''Bad Request: Missing CallSid'', w)
             else if falsy (SpeechResult body) \<or> low_confidence (Confidence body)
             then (Twiml repeat_twiml, w)
             else (case SpeechResult body of
                     None \<Rightarrow> (Twiml repeat_twiml, w)
                   | Some speechResult \<Rightarrow>
                       (case generateResponse openai sid speechResult 0 w of
                          (aiResponse, w') \<Rightarrow> (Twiml (answer_twiml aiResponse), w')))))"


section \<open>The running program\<close>




section \<open>Auxiliary definitions for the statements\<close>

text \<open>The waits of \<open>k\<close> consecutive retries, the first of them at retry count \<open>rc\<close>.\<close>

fun backoff_delays :: "nat \<Rightarrow> nat \<Rightarrow> nat list" where
  "backoff_delays rc 0 = []"
| "backoff_delays rc (Suc k) = (2 ^ rc * 1000) # backoff_delays (Suc rc) k"

text \<open>
  The user turns that \<open>k\<close> consecutive attempts push, the first of them at clock \<open>t\<close>
  and retry count \<open>rc\<close>: each later one is stamped after the wait before it.
\<close>

fun retried_user_turns :: "string \<Rightarrow> nat \<Rightarrow> nat \<Rightarrow> nat \<Rightarrow> turn list" where
  "retried_user_turns msg t rc 0 = []"
| "retried_user_turns msg t rc (Suc k) =
     \<lparr>role = User, content = msg, timestamp = t\<rparr> #
     retried_user_turns msg (t + 2 ^ rc * 1000) (Suc rc) k"

text \<open>The entry that an attempt pushes for the caller's message.\<close>

definition user_turn :: "string \<Rightarrow> world \<Rightarrow> turn" where
  "user_turn msg w = \<lparr>role = User, content = msg, timestamp = clock w\<rparr>"

text \<open>
  Concrete worlds and providers for the closed examples: the state of a freshly loaded
  module without a database, a provider that always fails, and one that fails on its
  first \<open>k\<close> calls and answers \<open>u\<close> afterwards.
\<close>

definition blank_session :: callSession where
  "blank_session = \<lparr>callSid = [], fromNumber = [], language = [], startTime = 0,
     conversationHistory = [], audioBuffer = [], isActive = False, contextWindow = [],
     endTime = None\<rparr>"

definition initial_world :: world where
  "initial_world = \<lparr>activeCalls = Map.empty, heap = (\<lambda>_. blank_session), next_ref = 0,
     clock = 0, db = None, llm_calls = [], sleeps = []\<rparr>"

definition failing_provider :: provider where
  "failing_provider n ms = ProviderError"

definition flaky_provider :: "nat \<Rightarrow> string \<Rightarrow> provider" where
  "flaky_provider k u n ms = (if n < k then ProviderError else Completion u)"

definition world_CA1 :: world where
  "world_CA1 = snd (initializeCall ''CA1'' ''+15551234567'' (Some ''en'') initial_world)"

definition world_CA1_turn :: world where
  "world_CA1_turn =
     snd (generateResponse (flaky_provider 0 ''Sunny'') ''CA1'' ''What is the weather?'' 0 world_CA1)"

definition world_CA1_again :: world where
  "world_CA1_again = snd (initializeCall ''CA1'' ''+15551234567'' (Some ''en'') world_CA1_turn)"

definition world_hi :: world where
  "world_hi = snd (initializeCall ''CA1'' ''+15551234567'' (Some ''hi'') initial_world)"

definition prior_turns :: "turn list" where
  "prior_turns = map (\<lambda>c. \<lparr>role = User, content = c, timestamp = 0\<rparr>)
     [''t01'', ''t02'', ''t03'', ''t04'', ''t05'', ''t06'', ''t07'', ''t08'', ''t09'', ''t10'',
      ''t11'', ''t12'', ''t13'', ''t14'', ''t15'']"

definition world_15 :: world where
  "world_15 = world_CA1\<lparr>heap := (heap world_CA1)
      (0 := (heap world_CA1 0)\<lparr>conversationHistory := prior_turns\<rparr>)\<rparr>"

definition incoming_body :: "string \<Rightarrow> string \<Rightarrow> webhook_body" where
  "incoming_body sid from_number =
     \<lparr>CallSid = Some sid, From = Some from_number, SpeechResult = None, Confidence = None,
      CallStatus = None\<rparr>"

definition turn_body :: "string \<Rightarrow> string \<Rightarrow> real \<Rightarrow> webhook_body" where
  "turn_body sid speech c =
     \<lparr>CallSid = Some sid, From = None, SpeechResult = Some speech, Confidence = Some c,
      CallStatus = None\<rparr>"

lemmas eval_defs = initial_world_def blank_session_def failing_provider_def flaky_provider_def
  world_CA1_def world_CA1_turn_def world_CA1_again_def world_hi_def prior_turns_def
  world_15_def turn_body_def incoming_body_def
  initializeCall_def logCallEvent_def logConversation_def push_turn_def generateResponse_try_def
  setTimeout_def languageName_def supportedLanguages_def inheritedNames_def getSession_def
  build_messages_def slice_last_def to_message_def endCall_def Let_def
  voice_process_def voice_incoming_def falsy_def low_confidence_def

section \<open>Lemmas about attempts and retries\<close>

text \<open>The branches of one attempt, as equations.\<close>

lemma try_no_session:
  "activeCalls w sid = None \<Longrightarrow> generateResponse_try openai sid msg w = (Inl SessionNotFound, w)"
  by (simp add: generateResponse_try_def)

lemma try_bad_language:
  "activeCalls w sid = Some r \<Longrightarrow> languageName (language (heap w r)) = None \<Longrightarrow>
   generateResponse_try openai sid msg w = (Inl LanguageTypeError, push_turn r (user_turn msg w) w)"
  by (simp add: generateResponse_try_def push_turn_def user_turn_def Let_def)

lemma try_provider_error:
  "activeCalls w sid = Some r \<Longrightarrow> languageName (language (heap w r)) = Some nm \<Longrightarrow>
   openai (length (llm_calls w))
     (build_messages nm (conversationHistory (heap w r) @ [user_turn msg w])) = ProviderError \<Longrightarrow>
   generateResponse_try openai sid msg w =
     (Inl LLMError, (push_turn r (user_turn msg w) w)
        \<lparr>llm_calls := llm_calls w @
           [build_messages nm (conversationHistory (heap w r) @ [user_turn msg w])]\<rparr>)"
  by (simp add: generateResponse_try_def push_turn_def user_turn_def Let_def)

lemma try_completion:
  "activeCalls w sid = Some r \<Longrightarrow> languageName (language (heap w r)) = Some nm \<Longrightarrow>
   openai (length (llm_calls w))
     (build_messages nm (conversationHistory (heap w r) @ [user_turn msg w])) = Completion u \<Longrightarrow>
   generateResponse_try openai sid msg w =
     (Inr u, logConversation sid msg u
        (push_turn r \<lparr>role = Assistant, content = u, timestamp = clock w\<rparr>
          ((push_turn r (user_turn msg w) w)
             \<lparr>llm_calls := llm_calls w @
                [build_messages nm (conversationHistory (heap w r) @ [user_turn msg w])]\<rparr>)))"
  by (simp add: generateResponse_try_def push_turn_def user_turn_def Let_def)

text \<open>The three ways out of one call of \<open>generateResponse\<close>.\<close>

lemma gen_ok:
  "generateResponse_try openai sid msg w = (Inr a, w') \<Longrightarrow>
   generateResponse openai sid msg rc w = (a, w')"
  by (simp add: generateResponse.simps)
lemma gen_retry:
  "generateResponse_try openai sid msg w = (Inl e, w') \<Longrightarrow> rc < 3 \<Longrightarrow>
   generateResponse openai sid msg rc w =
     generateResponse openai sid msg (rc + 1) (setTimeout (2 ^ rc * 1000) w')"
  by (simp add: generateResponse.simps)
lemma gen_exhausted:
  "generateResponse_try openai sid msg w = (Inl e, w') \<Longrightarrow> \<not> rc < 3 \<Longrightarrow>
   generateResponse openai sid msg rc w = (apology, w')"
  by (simp add: generateResponse.simps)

text \<open>What stays and what changes in the world over one failed attempt with a session.\<close>

lemma failed_attempt_frame:
  assumes sess: "activeCalls w sid = Some r"
    and fail: "generateResponse_try openai sid msg w = (Inl e, w')"
  shows "activeCalls w' = activeCalls w"
    and "language (heap w' r) = language (heap w r)"
    and "conversationHistory (heap w' r) = conversationHistory (heap w r) @ [user_turn msg w]"
    and "clock w' = clock w"
    and "sleeps w' = sleeps w"
    and "db w' = db w"
    and "next_ref w' = next_ref w"
  using assms
  by (auto simp: generateResponse_try_def push_turn_def user_turn_def Let_def
           split: option.splits completion.splits)

text \<open>A failed attempt has called the provider exactly when the language lookup went through.\<close>

lemma failed_attempt_calls:
  assumes "activeCalls w sid = Some r"
    and "generateResponse_try openai sid msg w = (Inl e, w')"
  shows "llm_calls w' =
           (case languageName (language (heap w r)) of
              None \<Rightarrow> llm_calls w
            | Some nm \<Rightarrow> llm_calls w @
                [build_messages nm (conversationHistory (heap w r) @ [user_turn msg w])])"
  using assms
  by (auto simp: generateResponse_try_def push_turn_def user_turn_def Let_def
           split: option.splits completion.splits)

lemma attempt_fails:
  assumes "activeCalls w sid = Some r"
    and "languageName (language (heap w r)) = None \<or>
         (\<forall>ms. openai (length (llm_calls w)) ms = ProviderError)"
  shows "\<exists>e w'. generateResponse_try openai sid msg w = (Inl e, w')"
  using assms
  by (auto simp: generateResponse_try_def Let_def push_turn_def split: option.splits)

text \<open>
  \<open>k\<close> failed attempts, each followed by a retry: the call at retry count \<open>rc\<close> equals the
  call at \<open>rc + k\<close> from a world that differs by \<open>k\<close> user turns and \<open>k\<close> waits.
\<close>

lemma failed_prefix:
  assumes "activeCalls w sid = Some r"
    and "languageName (language (heap w r)) = None \<or>
         (\<forall>i<k. \<forall>ms. openai (length (llm_calls w) + i) ms = ProviderError)"
    and "rc + k \<le> 3"
  shows "\<exists>w'. generateResponse openai sid msg rc w = generateResponse openai sid msg (rc + k) w'
           \<and> activeCalls w' = activeCalls w
           \<and> language (heap w' r) = language (heap w r)
           \<and> conversationHistory (heap w' r) =
               conversationHistory (heap w r) @ retried_user_turns msg (clock w) rc k
           \<and> clock w' = clock w + sum_list (backoff_delays rc k)
           \<and> sleeps w' = sleeps w @ backoff_delays rc k
           \<and> length (llm_calls w') =
               (case languageName (language (heap w r)) of
                  None \<Rightarrow> length (llm_calls w) | Some nm \<Rightarrow> length (llm_calls w) + k)"
  using assms
proof (induction k arbitrary: rc w)
  case 0
  show ?case by (rule exI [of _ w]) (simp split: option.splits)
next
  case (Suc k)
  have now: "languageName (language (heap w r)) = None \<or>
         (\<forall>ms. openai (length (llm_calls w)) ms = ProviderError)"
    using Suc.prems(2) by (metis add.right_neutral zero_less_Suc)
  have "\<exists>e w1. generateResponse_try openai sid msg w = (Inl e, w1)"
    using Suc.prems(1) now by (rule attempt_fails)
  then obtain e w1 where
    t: "generateResponse_try openai sid msg w = (Inl e, w1)" by blast
  note fr = failed_attempt_frame [OF Suc.prems(1) t]
  note fc = failed_attempt_calls [OF Suc.prems(1) t]
  let ?w2 = "setTimeout (2 ^ rc * 1000) w1"
  have step: "generateResponse openai sid msg rc w = generateResponse openai sid msg (Suc rc) ?w2"
    using gen_retry [OF t, of rc] Suc.prems(3) by simp
  have a: "activeCalls ?w2 sid = Some r"
    using Suc.prems(1) fr(1) by (simp add: setTimeout_def)
  have lang: "language (heap ?w2 r) = language (heap w r)"
    using fr(2) by (simp add: setTimeout_def)
  have f: "languageName (language (heap ?w2 r)) = None \<or>
         (\<forall>i<k. \<forall>ms. openai (length (llm_calls ?w2) + i) ms = ProviderError)"
  proof (cases "languageName (language (heap w r))")
    case None
    then show ?thesis using lang by simp
  next
    case (Some nm)
    have "\<forall>i<k. \<forall>ms. openai (length (llm_calls ?w2) + i) ms = ProviderError"
    proof (intro allI impI)
      fix i ms
      assume "i < k"
      then have "openai (length (llm_calls w) + Suc i) ms = ProviderError"
        using Suc.prems(2) Some by (metis Suc_less_eq option.distinct(1))
      then show "openai (length (llm_calls ?w2) + i) ms = ProviderError"
        using fc Some by (simp add: setTimeout_def)
    qed
    then show ?thesis by simp
  qed
  have b: "Suc rc + k \<le> 3" using Suc.prems(3) by simp
  from Suc.IH [OF a f b] obtain w' where
    w': "generateResponse openai sid msg (Suc rc) ?w2 = generateResponse openai sid msg (Suc rc + k) w'"
      "activeCalls w' = activeCalls ?w2"
      "language (heap w' r) = language (heap ?w2 r)"
      "conversationHistory (heap w' r) =
         conversationHistory (heap ?w2 r) @ retried_user_turns msg (clock ?w2) (Suc rc) k"
      "clock w' = clock ?w2 + sum_list (backoff_delays (Suc rc) k)"
      "sleeps w' = sleeps ?w2 @ backoff_delays (Suc rc) k"
      "length (llm_calls w') =
               (case languageName (language (heap ?w2 r)) of
                  None \<Rightarrow> length (llm_calls ?w2) | Some nm \<Rightarrow> length (llm_calls ?w2) + k)"
    by blast
  show ?case
    apply (rule exI [of _ w'])
    using step w' fr fc lang
    by (simp add: setTimeout_def user_turn_def split: option.splits)
qed

text \<open>The record of provider calls only grows.\<close>

lemma llm_calls_grow:
  "\<exists>rest. llm_calls (snd (generateResponse openai sid msg rc w)) = llm_calls w @ rest"
proof (induction openai sid msg rc w rule: generateResponse.induct)
  case (1 openai sid msg rc w)
  obtain res w' where t: "generateResponse_try openai sid msg w = (res, w')"
    by (cases "generateResponse_try openai sid msg w")
  have g: "\<exists>rest. llm_calls w' = llm_calls w @ rest"
    using t by (auto simp: generateResponse_try_def push_turn_def logConversation_def Let_def
                     split: option.splits completion.splits)
  show ?case
  proof (cases res)
    case (Inr a)
    then show ?thesis using t g by (simp add: gen_ok)
  next
    case (Inl e)
    show ?thesis
    proof (cases "rc < 3")
      case True
      have "\<exists>rest. llm_calls (snd (generateResponse openai sid msg (rc + 1)
               (setTimeout (2 ^ rc * 1000) w'))) = llm_calls (setTimeout (2 ^ rc * 1000) w') @ rest"
        using "1.IH" [OF t [symmetric] Inl True] .
      then show ?thesis
        using g t Inl True by (auto simp: gen_retry setTimeout_def)
    next
      case False
      then show ?thesis using t g Inl by (simp add: gen_exhausted)
    qed
  qed
qed

text \<open>
  Whatever the provider does and whatever the store holds, a call of \<open>generateResponse\<close>
  makes at most \<open>3 - rc\<close> waits, and they are the backoff delays in order.
\<close>

lemma try_sleeps:
  "sleeps (snd (generateResponse_try openai sid msg w)) = sleeps w"
  by (simp add: generateResponse_try_def push_turn_def logConversation_def Let_def
           split: option.splits completion.splits)

lemma waits_bounded:
  "rc \<le> 3 \<Longrightarrow>
   \<exists>k. k \<le> 3 - rc \<and>
       sleeps (snd (generateResponse openai sid msg rc w)) = sleeps w @ backoff_delays rc k"
proof (induction openai sid msg rc w rule: generateResponse.induct)
  case (1 openai sid msg rc w)
  obtain res w1 where t: "generateResponse_try openai sid msg w = (res, w1)"
    by (cases "generateResponse_try openai sid msg w")
  have s: "sleeps w1 = sleeps w" using try_sleeps [of openai sid msg w] t by simp
  show ?case
  proof (cases res)
    case (Inr a)
    have "sleeps (snd (generateResponse openai sid msg rc w)) = sleeps w @ backoff_delays rc 0"
      using t Inr s by (simp add: gen_ok)
    then show ?thesis by blast
  next
    case (Inl e)
    show ?thesis
    proof (cases "rc < 3")
      case True
      then have b: "rc + 1 \<le> 3" by simp
      from "1.IH" [OF t [symmetric] Inl True b] obtain k where
        k: "k \<le> 3 - (rc + 1)"
          "sleeps (snd (generateResponse openai sid msg (rc + 1) (setTimeout (2 ^ rc * 1000) w1))) =
             sleeps (setTimeout (2 ^ rc * 1000) w1) @ backoff_delays (rc + 1) k"
        by blast
      have "sleeps (snd (generateResponse openai sid msg rc w)) =
              sleeps w @ backoff_delays rc (Suc k)"
        using k(2) t Inl True s by (simp add: gen_retry setTimeout_def)
      moreover have "Suc k \<le> 3 - rc" using k(1) True by simp
      ultimately show ?thesis by blast
    next
      case False
      have "sleeps (snd (generateResponse openai sid msg rc w)) = sleeps w @ backoff_delays rc 0"
        using t Inl False s by (simp add: gen_exhausted)
      then show ?thesis by blast
    qed
  qed
qed

lemma backoff_delays_0: "k \<le> 3 \<Longrightarrow> backoff_delays 0 k = take k [1000, 2000, 4000]"
proof -
  assume "k \<le> 3"
  then consider "k = 0" | "k = Suc 0" | "k = Suc (Suc 0)" | "k = Suc (Suc (Suc 0))"
    by arith
  then show ?thesis by cases simp_all
qed

lemma retried_user_turns_3:
  "retried_user_turns msg t 0 3 =
    [\<lparr>role = User, content = msg, timestamp = t\<rparr>,
     \<lparr>role = User, content = msg, timestamp = t + 1000\<rparr>,
     \<lparr>role = User, content = msg, timestamp = t + 3000\<rparr>]"
proof -
  have e: "(3::nat) = Suc (Suc (Suc 0))" by simp
  show ?thesis unfolding e by simp
qed

lemma retried_user_turns_4:
  "retried_user_turns msg t 0 4 =
    [\<lparr>role = User, content = msg, timestamp = t\<rparr>,
     \<lparr>role = User, content = msg, timestamp = t + 1000\<rparr>,
     \<lparr>role = User, content = msg, timestamp = t + 3000\<rparr>,
     \<lparr>role = User, content = msg, timestamp = t + 7000\<rparr>]"
proof -
  have e: "(4::nat) = Suc (Suc (Suc (Suc 0)))" by simp
  show ?thesis unfolding e by simp
qed

lemma retried_user_turns_snoc:
  "retried_user_turns msg t rc (Suc j) =
     retried_user_turns msg t rc j @
       [\<lparr>role = User, content = msg, timestamp = t + sum_list (backoff_delays rc j)\<rparr>]"
proof (induction j arbitrary: t rc)
  case 0
  show ?case by simp
next
  case (Suc j)
  have "retried_user_turns msg t rc (Suc (Suc j)) =
          \<lparr>role = User, content = msg, timestamp = t\<rparr> #
          retried_user_turns msg (t + 2 ^ rc * 1000) (Suc rc) (Suc j)"
    by (simp only: retried_user_turns.simps)
  also have "\<dots> = \<lparr>role = User, content = msg, timestamp = t\<rparr> #
          (retried_user_turns msg (t + 2 ^ rc * 1000) (Suc rc) j @
            [\<lparr>role = User, content = msg,
              timestamp = (t + 2 ^ rc * 1000) + sum_list (backoff_delays (Suc rc) j)\<rparr>])"
    by (simp only: Suc.IH)
  also have "\<dots> = retried_user_turns msg t rc (Suc j) @
       [\<lparr>role = User, content = msg, timestamp = t + sum_list (backoff_delays rc (Suc j))\<rparr>]"
    by (simp add: add.assoc)
  finally show ?case .
qed

text \<open>All four attempts fail: the apology, three waits, one user turn per attempt.\<close>

lemma exhausted_run:
  assumes sess: "activeCalls w sid = Some r"
    and fails: "languageName (language (heap w r)) = None \<or>
         (\<forall>i<4. \<forall>ms. openai (length (llm_calls w) + i) ms = ProviderError)"
  shows "fst (generateResponse openai sid msg 0 w) = apology"
    and "sleeps (snd (generateResponse openai sid msg 0 w)) = sleeps w @ [1000, 2000, 4000]"
    and "conversationHistory (heap (snd (generateResponse openai sid msg 0 w)) r) =
           conversationHistory (heap w r) @ retried_user_turns msg (clock w) 0 4"
    and "activeCalls (snd (generateResponse openai sid msg 0 w)) = activeCalls w"
    and "length (llm_calls (snd (generateResponse openai sid msg 0 w))) =
           (case languageName (language (heap w r)) of
              None \<Rightarrow> length (llm_calls w) | Some nm \<Rightarrow> length (llm_calls w) + 4)"
proof -
  have f3: "languageName (language (heap w r)) = None \<or>
         (\<forall>i<3. \<forall>ms. openai (length (llm_calls w) + i) ms = ProviderError)"
    using fails by auto
  have "\<exists>w'. generateResponse openai sid msg 0 w = generateResponse openai sid msg (0 + 3) w'
           \<and> activeCalls w' = activeCalls w
           \<and> language (heap w' r) = language (heap w r)
           \<and> conversationHistory (heap w' r) =
               conversationHistory (heap w r) @ retried_user_turns msg (clock w) 0 3
           \<and> clock w' = clock w + sum_list (backoff_delays 0 3)
           \<and> sleeps w' = sleeps w @ backoff_delays 0 3
           \<and> length (llm_calls w') =
               (case languageName (language (heap w r)) of
                  None \<Rightarrow> length (llm_calls w) | Some nm \<Rightarrow> length (llm_calls w) + 3)"
    using sess f3 by (rule failed_prefix) simp
  then obtain w' where
    w': "generateResponse openai sid msg 0 w = generateResponse openai sid msg 3 w'"
      "activeCalls w' = activeCalls w"
      "language (heap w' r) = language (heap w r)"
      "conversationHistory (heap w' r) =
         conversationHistory (heap w r) @ retried_user_turns msg (clock w) 0 3"
      "clock w' = clock w + sum_list (backoff_delays 0 3)"
      "sleeps w' = sleeps w @ backoff_delays 0 3"
      "length (llm_calls w') =
               (case languageName (language (heap w r)) of
                  None \<Rightarrow> length (llm_calls w) | Some nm \<Rightarrow> length (llm_calls w) + 3)"
    by auto
  have a: "activeCalls w' sid = Some r" using sess w'(2) by simp
  have now: "languageName (language (heap w' r)) = None \<or>
         (\<forall>ms. openai (length (llm_calls w')) ms = ProviderError)"
    using fails w'(3) w'(7) by (auto split: option.splits)
  have "\<exists>e w1. generateResponse_try openai sid msg w' = (Inl e, w1)"
    using a now by (rule attempt_fails)
  then obtain e w1 where t: "generateResponse_try openai sid msg w' = (Inl e, w1)" by blast
  note fr = failed_attempt_frame [OF a t]
  have g: "generateResponse openai sid msg 0 w = (apology, w1)"
    using w'(1) gen_exhausted [OF t, of 3] by simp
  show "fst (generateResponse openai sid msg 0 w) = apology" using g by simp
  show "sleeps (snd (generateResponse openai sid msg 0 w)) = sleeps w @ [1000, 2000, 4000]"
    using g fr(5) w'(6) backoff_delays_0 [of 3] by simp
  show "conversationHistory (heap (snd (generateResponse openai sid msg 0 w)) r) =
           conversationHistory (heap w r) @ retried_user_turns msg (clock w) 0 4"
    using g fr(3) w'(4) w'(5) backoff_delays_0 [of 3]
    by (simp add: retried_user_turns_3 retried_user_turns_4 user_turn_def)
  show "activeCalls (snd (generateResponse openai sid msg 0 w)) = activeCalls w"
    using g fr(1) w'(2) by simp
  show "length (llm_calls (snd (generateResponse openai sid msg 0 w))) =
           (case languageName (language (heap w r)) of
              None \<Rightarrow> length (llm_calls w) | Some nm \<Rightarrow> length (llm_calls w) + 4)"
    using g failed_attempt_calls [OF a t] w'(3) w'(7) by (simp split: option.splits)
qed

text \<open>\<open>k\<close> failed attempts, \<open>k \<le> 3\<close>, then a completion.\<close>

lemma recovered_run:
  assumes sess: "activeCalls w sid = Some r"
    and lang: "languageName (language (heap w r)) = Some nm"
    and k: "k \<le> 3"
    and fails: "\<forall>i<k. \<forall>ms. openai (length (llm_calls w) + i) ms = ProviderError"
    and ok: "\<forall>ms. openai (length (llm_calls w) + k) ms = Completion u"
  shows "fst (generateResponse openai sid msg 0 w) = u"
    and "sleeps (snd (generateResponse openai sid msg 0 w)) = sleeps w @ take k [1000, 2000, 4000]"
    and "conversationHistory (heap (snd (generateResponse openai sid msg 0 w)) r) =
           conversationHistory (heap w r) @ retried_user_turns msg (clock w) 0 (Suc k) @
           [\<lparr>role = Assistant, content = u,
             timestamp = clock w + sum_list (take k [1000, 2000, 4000])\<rparr>]"
    and "length (llm_calls (snd (generateResponse openai sid msg 0 w))) =
           length (llm_calls w) + Suc k"
proof -
  have f: "languageName (language (heap w r)) = None \<or>
         (\<forall>i<k. \<forall>ms. openai (length (llm_calls w) + i) ms = ProviderError)"
    using fails by simp
  have "\<exists>w'. generateResponse openai sid msg 0 w = generateResponse openai sid msg (0 + k) w'
           \<and> activeCalls w' = activeCalls w
           \<and> language (heap w' r) = language (heap w r)
           \<and> conversationHistory (heap w' r) =
               conversationHistory (heap w r) @ retried_user_turns msg (clock w) 0 k
           \<and> clock w' = clock w + sum_list (backoff_delays 0 k)
           \<and> sleeps w' = sleeps w @ backoff_delays 0 k
           \<and> length (llm_calls w') =
               (case languageName (language (heap w r)) of
                  None \<Rightarrow> length (llm_calls w) | Some nm \<Rightarrow> length (llm_calls w) + k)"
    using sess f by (rule failed_prefix) (use k in simp)
  then obtain w' where
    w': "generateResponse openai sid msg 0 w = generateResponse openai sid msg k w'"
      "activeCalls w' = activeCalls w"
      "language (heap w' r) = language (heap w r)"
      "conversationHistory (heap w' r) =
         conversationHistory (heap w r) @ retried_user_turns msg (clock w) 0 k"
      "clock w' = clock w + sum_list (backoff_delays 0 k)"
      "sleeps w' = sleeps w @ backoff_delays 0 k"
      "length (llm_calls w') = length (llm_calls w) + k"
    using lang by auto
  have a: "activeCalls w' sid = Some r" using sess w'(2) by simp
  have l: "languageName (language (heap w' r)) = Some nm" using lang w'(3) by simp
  have c: "openai (length (llm_calls w'))
     (build_messages nm (conversationHistory (heap w' r) @ [user_turn msg w'])) = Completion u"
    using ok w'(7) by simp
  note t = try_completion [of w' sid r nm openai msg u, OF a l c]
  note g = gen_ok [OF t, of k]
  show "fst (generateResponse openai sid msg 0 w) = u" using w'(1) g by simp
  show "sleeps (snd (generateResponse openai sid msg 0 w)) = sleeps w @ take k [1000, 2000, 4000]"
    using w'(1) g w'(6) backoff_delays_0 [OF k]
    by (simp add: logConversation_def push_turn_def split: option.splits)
  show "conversationHistory (heap (snd (generateResponse openai sid msg 0 w)) r) =
           conversationHistory (heap w r) @ retried_user_turns msg (clock w) 0 (Suc k) @
           [\<lparr>role = Assistant, content = u,
             timestamp = clock w + sum_list (take k [1000, 2000, 4000])\<rparr>]"
    using w'(1) g w'(4) w'(5) backoff_delays_0 [OF k] retried_user_turns_snoc [of msg "clock w" 0 k]
    by (simp add: logConversation_def push_turn_def user_turn_def split: option.splits)
  show "length (llm_calls (snd (generateResponse openai sid msg 0 w))) =
           length (llm_calls w) + Suc k"
    using w'(1) g w'(7)
    by (simp add: logConversation_def push_turn_def split: option.splits)
qed

lemma first_call_recorded:
  assumes "activeCalls w sid = Some r"
    and "languageName (language (heap w r)) = Some nm"
  shows "\<exists>rest. llm_calls (snd (generateResponse openai sid msg 0 w)) =
           llm_calls w @
           build_messages nm (conversationHistory (heap w r) @ [user_turn msg w]) # rest"
proof -
  let ?ms = "build_messages nm (conversationHistory (heap w r) @ [user_turn msg w])"
  obtain res w1 where t: "generateResponse_try openai sid msg w = (res, w1)"
    by (cases "generateResponse_try openai sid msg w")
  have c: "llm_calls w1 = llm_calls w @ [?ms]"
    using t assms
    by (auto simp: generateResponse_try_def push_turn_def user_turn_def logConversation_def Let_def
             split: option.splits completion.splits)
  show ?thesis
  proof (cases res)
    case (Inr a)
    then show ?thesis using gen_ok [of openai sid msg w a w1 0] t c by simp
  next
    case (Inl e)
    obtain rest where
      "llm_calls (snd (generateResponse openai sid msg (0 + 1) (setTimeout (2 ^ 0 * 1000) w1))) =
         llm_calls (setTimeout (2 ^ 0 * 1000) w1) @ rest"
      using llm_calls_grow by blast
    then show ?thesis
      using gen_retry [of openai sid msg w e w1 0] t c Inl by (simp add: setTimeout_def)
  qed
qed

text \<open>A completion on the first attempt: exactly the user turn and the assistant turn.\<close>

lemma first_attempt_success_appends_two:
  assumes "activeCalls w sid = Some r"
    and "languageName (language (heap w r)) = Some nm"
    and "\<forall>ms. openai (length (llm_calls w)) ms = Completion u"
  shows "generateResponse openai sid msg 0 w = (u, snd (generateResponse openai sid msg 0 w))
       \<and> conversationHistory (heap (snd (generateResponse openai sid msg 0 w)) r) =
           conversationHistory (heap w r) @
             [\<lparr>role = User, content = msg, timestamp = clock w\<rparr>,
              \<lparr>role = Assistant, content = u, timestamp = clock w\<rparr>]"
proof -
  have k: "(0::nat) \<le> 3" by simp
  have f: "\<forall>i<0. \<forall>ms. openai (length (llm_calls w) + i) ms = ProviderError" by simp
  have ok: "\<forall>ms. openai (length (llm_calls w) + 0) ms = Completion u" using assms(3) by simp
  show ?thesis
    using recovered_run(1) [OF assms(1,2) k f ok, of msg] recovered_run(3) [OF assms(1,2) k f ok, of msg]
    by (simp add: prod_eq_iff)
qed

section \<open>Sessions of the running program\<close>





section \<open>The claims\<close>

subsection \<open>C1: Creating a session twice\<close>

text \<open>
  Claim C1, as amended. \<open>initializeCall\<close> never looks at what the map holds for the
  call id. When the id already maps to a session, a second \<open>initializeCall\<close> with that id
  allocates a new session object and stores it under the id: the store then gives the new
  session, with empty history and \<open>isActive\<close> true, and holds one entry for the id as
  before. The earlier object is not reused; it is left as it was and is no longer
  reachable through the store.
\<close>

theorem initializeCall_replaces_session:
  assumes "activeCalls w sid = Some r" and "r < next_ref w"
  shows "fst (initializeCall sid from_number lang_arg w) = next_ref w
       \<and> next_ref w \<noteq> r
       \<and> activeCalls (snd (initializeCall sid from_number lang_arg w)) =
           (activeCalls w)(sid \<mapsto> next_ref w)
       \<and> getSession (snd (initializeCall sid from_number lang_arg w)) sid =
           Some \<lparr>callSid = sid, fromNumber = from_number,
                 language = (case lang_arg of None \<Rightarrow> ''en'' | Some l \<Rightarrow> l),
                 startTime = clock w, conversationHistory = [], audioBuffer = [],
                 isActive = True, contextWindow = [], endTime = None\<rparr>
       \<and> heap (snd (initializeCall sid from_number lang_arg w)) r = heap w r"
  using assms
  by (auto simp: initializeCall_def logCallEvent_def getSession_def Let_def split: option.splits)

text \<open>
  The amended C1 at a session that has had one turn: the store gives an empty history
  after the second \<open>initializeCall\<close>, the two turns stay in the old object.
\<close>

theorem initializeCall_replaces_session_witness:
  "activeCalls world_CA1_turn ''CA1'' = Some 0 \<and> 0 < next_ref world_CA1_turn
   \<and> map_option conversationHistory
        (getSession (snd (initializeCall ''CA1'' ''+15551234567'' None world_CA1_turn)) ''CA1'') = Some []
   \<and> length (conversationHistory
        (heap (snd (initializeCall ''CA1'' ''+15551234567'' None world_CA1_turn)) 0)) = 2"
proof -
  have a: "activeCalls world_CA1_turn ''CA1'' = Some 0"
    by (simp add: generateResponse.simps eval_defs)
  have b: "0 < next_ref world_CA1_turn"
    by (simp add: generateResponse.simps eval_defs)
  have c: "length (conversationHistory (heap world_CA1_turn 0)) = 2"
    by (simp add: generateResponse.simps eval_defs)
  show ?thesis
    using initializeCall_replaces_session [OF a b, of "''+15551234567''" None] a b c
    by simp
qed

text \<open>
  C1 as stated fails: after one turn the history of \<open>CA1\<close> has two entries; after a second
  \<open>initializeCall\<close> with the same id the store maps \<open>CA1\<close> to another object, whose
  history is empty.
\<close>

theorem initializeCall_reuse_counterexample:
  "map_option conversationHistory (getSession world_CA1_turn ''CA1'') =
     Some [\<lparr>role = User, content = ''What is the weather?'', timestamp = 0\<rparr>,
           \<lparr>role = Assistant, content = ''Sunny'', timestamp = 0\<rparr>]
   \<and> map_option conversationHistory (getSession world_CA1_again ''CA1'') = Some []
   \<and> activeCalls world_CA1_turn ''CA1'' = Some 0
   \<and> activeCalls world_CA1_again ''CA1'' = Some 1"
  by (simp add: generateResponse.simps eval_defs)

subsection \<open>C2: The apology is not recorded\<close>

text \<open>
  Claim C2, as amended. When a session exists and all four attempts fail (the language
  lookup throws, or the provider fails on each of its next four calls),
  \<open>generateResponse\<close> returns the fixed apology and does not record it: the final
  \<open>return\<close> of the \<open>catch\<close> block pushes nothing. The history keeps its earlier entries
  as a prefix, has the same assistant turns as before, and ends with a user turn, not
  with the apology.
\<close>

theorem exhausted_generation_returns_unrecorded_apology:
  assumes "activeCalls w sid = Some r"
    and "languageName (language (heap w r)) = None \<or>
         (\<forall>i<4. \<forall>ms. openai (length (llm_calls w) + i) ms = ProviderError)"
  shows "fst (generateResponse openai sid msg 0 w) = apology
       \<and> filter (\<lambda>t. role t = Assistant)
           (conversationHistory (heap (snd (generateResponse openai sid msg 0 w)) r)) =
         filter (\<lambda>t. role t = Assistant) (conversationHistory (heap w r))
       \<and> take (length (conversationHistory (heap w r)))
           (conversationHistory (heap (snd (generateResponse openai sid msg 0 w)) r)) =
         conversationHistory (heap w r)
       \<and> role (last (conversationHistory (heap (snd (generateResponse openai sid msg 0 w)) r))) = User"
  using exhausted_run(1) [OF assms] exhausted_run(3) [OF assms]
  by (simp add: retried_user_turns_4)

text \<open>The amended C2 at a fresh session and a provider that always fails.\<close>

theorem exhausted_generation_returns_unrecorded_apology_witness:
  "activeCalls world_CA1 ''CA1'' = Some 0
   \<and> fst (generateResponse failing_provider ''CA1'' ''hello'' 0 world_CA1) = apology
   \<and> filter (\<lambda>t. role t = Assistant)
        (conversationHistory (heap (snd (generateResponse failing_provider ''CA1'' ''hello'' 0 world_CA1)) 0)) = []"
proof -
  have a: "activeCalls world_CA1 ''CA1'' = Some 0" by (simp add: eval_defs)
  have b: "\<forall>i<4. \<forall>ms. failing_provider (length (llm_calls world_CA1) + i) ms = ProviderError"
    by (simp add: failing_provider_def)
  have c: "conversationHistory (heap world_CA1 0) = []" by (simp add: eval_defs)
  show ?thesis
    using exhausted_generation_returns_unrecorded_apology
            [OF a disjI2 [OF b], of "''hello''"] a c
    by simp
qed

text \<open>
  C2 as stated fails: with a provider that always fails the apology is returned and the
  history of the session holds user turns only.
\<close>

theorem apology_not_recorded_counterexample:
  "fst (generateResponse failing_provider ''CA1'' ''hello'' 0 world_CA1) = apology
   \<and> map_option (map role \<circ> conversationHistory)
       (getSession (snd (generateResponse failing_provider ''CA1'' ''hello'' 0 world_CA1)) ''CA1'')
      = Some [User, User, User, User]"
  by (simp add: generateResponse.simps eval_defs)

subsection \<open>C3: Unknown call id\<close>

text \<open>
  Claim C3. The \<open>throw new Error('Call session not found')\<close> sits inside the \<open>try\<close>
  block, so the \<open>catch\<close> meant for provider errors takes it: for a call id without a
  session \<open>generateResponse\<close> waits 1 s, 2 s and 4 s, never calls the provider and then
  returns the apology as an ordinary result, which \<open>/voice/process\<close> speaks to the caller.
  No error reaches the caller. \<open>endCall\<close> on the unknown id changes nothing, as claimed.
\<close>

theorem unknown_call_id_gets_apology:
  "activeCalls initial_world ''CA404'' = None
   \<and> generateResponse_try (flaky_provider 0 ''Sunny'') ''CA404'' ''hello'' initial_world =
       (Inl SessionNotFound, initial_world)
   \<and> generateResponse (flaky_provider 0 ''Sunny'') ''CA404'' ''hello'' 0 initial_world =
       (apology, initial_world\<lparr>clock := 7000, sleeps := [1000, 2000, 4000]\<rparr>)
   \<and> fst (voice_process (flaky_provider 0 ''Sunny'') (Some (turn_body ''CA404'' ''hello'' 0.9))
            initial_world) = Twiml (answer_twiml apology)
   \<and> endCall ''CA404'' initial_world = initial_world"
  by (simp add: generateResponse.simps eval_defs)

subsection \<open>C4: Unsupported language\<close>




subsection \<open>C5: One user turn per attempt\<close>

text \<open>
  Claim C5. Every attempt of \<open>generateResponse\<close> on an existing session starts by
  pushing the caller's message, and a retry is a new call of the whole function. So when
  the provider fails on its next four calls, the apology is returned and the history has
  grown by exactly four user turns with the same content (stamped at the start, and
  after waits of 1 s, 3 s and 7 s in total) and by no assistant turn.
\<close>

theorem user_message_pushed_on_every_attempt:
  assumes "activeCalls w sid = Some r"
    and "\<forall>i<4. \<forall>ms. openai (length (llm_calls w) + i) ms = ProviderError"
  shows "take (Suc (length (conversationHistory (heap w r))))
           (conversationHistory (heap (snd (generateResponse_try openai sid msg w)) r)) =
         conversationHistory (heap w r) @ [\<lparr>role = User, content = msg, timestamp = clock w\<rparr>]
       \<and> fst (generateResponse openai sid msg 0 w) = apology
       \<and> conversationHistory (heap (snd (generateResponse openai sid msg 0 w)) r) =
           conversationHistory (heap w r) @
             [\<lparr>role = User, content = msg, timestamp = clock w\<rparr>,
              \<lparr>role = User, content = msg, timestamp = clock w + 1000\<rparr>,
              \<lparr>role = User, content = msg, timestamp = clock w + 3000\<rparr>,
              \<lparr>role = User, content = msg, timestamp = clock w + 7000\<rparr>]
       \<and> length (conversationHistory (heap (snd (generateResponse openai sid msg 0 w)) r)) =
           length (conversationHistory (heap w r)) + 4
       \<and> filter (\<lambda>t. role t = Assistant)
           (conversationHistory (heap (snd (generateResponse openai sid msg 0 w)) r)) =
         filter (\<lambda>t. role t = Assistant) (conversationHistory (heap w r))"
proof -
  have f: "languageName (language (heap w r)) = None \<or>
         (\<forall>i<4. \<forall>ms. openai (length (llm_calls w) + i) ms = ProviderError)"
    using assms(2) by simp
  have one: "take (Suc (length (conversationHistory (heap w r))))
           (conversationHistory (heap (snd (generateResponse_try openai sid msg w)) r)) =
         conversationHistory (heap w r) @ [\<lparr>role = User, content = msg, timestamp = clock w\<rparr>]"
    using assms(1)
    by (simp add: generateResponse_try_def push_turn_def logConversation_def Let_def
             split: option.splits completion.splits)
  show ?thesis
    using one exhausted_run(1) [OF assms(1) f] exhausted_run(3) [OF assms(1) f]
    by (simp add: retried_user_turns_4)
qed

text \<open>
  C5 at a session with one earlier turn and a provider that fails on its calls 0 to 4
  (call 0 was the earlier turn's, made with another provider).
\<close>

theorem user_message_pushed_on_every_attempt_witness:
  "activeCalls world_CA1_turn ''CA1'' = Some 0
   \<and> length (llm_calls world_CA1_turn) = 1
   \<and> fst (generateResponse (flaky_provider 5 ''Sunny'') ''CA1'' ''hello'' 0 world_CA1_turn) = apology
   \<and> map role (conversationHistory
        (heap (snd (generateResponse (flaky_provider 5 ''Sunny'') ''CA1'' ''hello'' 0 world_CA1_turn)) 0)) =
      [User, Assistant, User, User, User, User]"
proof -
  have a: "activeCalls world_CA1_turn ''CA1'' = Some 0"
    by (simp add: generateResponse.simps eval_defs)
  have l: "length (llm_calls world_CA1_turn) = 1"
    by (simp add: generateResponse.simps eval_defs)
  have b: "\<forall>i<4. \<forall>ms. flaky_provider 5 ''Sunny'' (length (llm_calls world_CA1_turn) + i) ms = ProviderError"
    using l by (simp add: flaky_provider_def)
  have c: "map role (conversationHistory (heap world_CA1_turn 0)) = [User, Assistant]"
    by (simp add: generateResponse.simps eval_defs)
  show ?thesis
    using user_message_pushed_on_every_attempt [OF a b, of "''hello''"] a l c
    by simp
qed

subsection \<open>C6: Retry and backoff\<close>

text \<open>
  Claim C6. On a session with a supported language, let the provider fail on its next
  \<open>k\<close> calls, \<open>k \<le> 4\<close>, and answer \<open>u\<close> on the call after them when \<open>k < 4\<close>. Then
  \<open>generateResponse\<close> returns \<open>u\<close> unchanged when \<open>k < 4\<close> and the apology when \<open>k = 4\<close>;
  the waits it made are the first \<open>k\<close> of 1000, 2000 and 4000 milliseconds (all three
  when \<open>k = 4\<close>), and it called the provider \<open>k + 1\<close> times, at most four. The result is
  always a string: \<open>generateResponse\<close> has no exceptional outcome.
\<close>

theorem generateResponse_retry_policy:
  assumes "activeCalls w sid = Some r"
    and "languageName (language (heap w r)) = Some nm"
    and "k \<le> 4"
    and "\<forall>i<k. \<forall>ms. openai (length (llm_calls w) + i) ms = ProviderError"
    and "k < 4 \<longrightarrow> (\<forall>ms. openai (length (llm_calls w) + k) ms = Completion u)"
  shows "fst (generateResponse openai sid msg 0 w) = (if k < 4 then u else apology)
       \<and> sleeps (snd (generateResponse openai sid msg 0 w)) = sleeps w @ take k [1000, 2000, 4000]
       \<and> length (llm_calls (snd (generateResponse openai sid msg 0 w))) =
           length (llm_calls w) + min (Suc k) 4"
proof (cases "k < 4")
  case True
  then have k3: "k \<le> 3" by simp
  have ok: "\<forall>ms. openai (length (llm_calls w) + k) ms = Completion u"
    using assms(5) True by simp
  show ?thesis
    using recovered_run(1) [OF assms(1) assms(2) k3 assms(4) ok]
      recovered_run(2) [OF assms(1) assms(2) k3 assms(4) ok]
      recovered_run(4) [OF assms(1) assms(2) k3 assms(4) ok] True
    by simp
next
  case False
  then have k4: "k = 4" using assms(3) by simp
  have f: "languageName (language (heap w r)) = None \<or>
         (\<forall>i<4. \<forall>ms. openai (length (llm_calls w) + i) ms = ProviderError)"
    using assms(4) k4 by simp
  have f3: "languageName (language (heap w r)) = None \<or>
         (\<forall>i<3. \<forall>ms. openai (length (llm_calls w) + i) ms = ProviderError)"
    using assms(4) k4 by simp
  show ?thesis
    using exhausted_run(1) [OF assms(1) f] exhausted_run(2) [OF assms(1) f]
      exhausted_run(5) [OF assms(1) f] assms(2) k4
    by simp
qed

text \<open>C6 at three failures followed by a completion.\<close>

theorem generateResponse_retry_policy_witness:
  "activeCalls world_CA1 ''CA1'' = Some 0
   \<and> languageName (language (heap world_CA1 0)) = Some ''English''
   \<and> llm_calls world_CA1 = []
   \<and> fst (generateResponse (flaky_provider 3 ''Sunny'') ''CA1'' ''hello'' 0 world_CA1) = ''Sunny''
   \<and> sleeps (snd (generateResponse (flaky_provider 3 ''Sunny'') ''CA1'' ''hello'' 0 world_CA1)) =
       [1000, 2000, 4000]
   \<and> length (llm_calls (snd (generateResponse (flaky_provider 3 ''Sunny'') ''CA1'' ''hello'' 0 world_CA1))) = 4"
proof -
  have a: "activeCalls world_CA1 ''CA1'' = Some 0" by (simp add: eval_defs)
  have l: "languageName (language (heap world_CA1 0)) = Some ''English''"
    by (simp add: eval_defs)
  have n: "llm_calls world_CA1 = []" by (simp add: eval_defs)
  have s: "sleeps world_CA1 = []" by (simp add: eval_defs)
  have k: "(3::nat) \<le> 4" by simp
  have f: "\<forall>i<3. \<forall>ms. flaky_provider 3 ''Sunny'' (length (llm_calls world_CA1) + i) ms = ProviderError"
    by (simp add: n flaky_provider_def)
  have ok: "\<forall>ms. flaky_provider 3 ''Sunny'' (length (llm_calls world_CA1) + 3) ms = Completion ''Sunny''"
    by (simp add: n flaky_provider_def)
  have ok': "(3::nat) < 4 \<longrightarrow>
      (\<forall>ms. flaky_provider 3 ''Sunny'' (length (llm_calls world_CA1) + 3) ms = Completion ''Sunny'')"
    using ok by simp
  show ?thesis
    using generateResponse_retry_policy [OF a l k f ok', of "''hello''"] a l n s
    by simp
qed

subsection \<open>C7: History growth of a successful turn\<close>

text \<open>
  Claim C7. A turn with confidence 0.9 whose generation succeeds on the second attempt:
  the retry calls the whole function again, which pushes the caller's message a second
  time, so the history grows by three turns (user, user, assistant), not by two.
\<close>

theorem retried_success_appends_three_turns:
  "CallSid (turn_body ''CA1'' ''hello'' 0.9) = Some ''CA1''
   \<and> \<not> low_confidence (Confidence (turn_body ''CA1'' ''hello'' 0.9))
   \<and> map_option conversationHistory (getSession world_CA1 ''CA1'') = Some []
   \<and> fst (voice_process (flaky_provider 1 ''Sunny'') (Some (turn_body ''CA1'' ''hello'' 0.9)) world_CA1)
       = Twiml (answer_twiml ''Sunny'')
   \<and> map_option conversationHistory
       (getSession (snd (voice_process (flaky_provider 1 ''Sunny'')
                          (Some (turn_body ''CA1'' ''hello'' 0.9)) world_CA1)) ''CA1'') =
      Some [\<lparr>role = User, content = ''hello'', timestamp = 0\<rparr>,
            \<lparr>role = User, content = ''hello'', timestamp = 1000\<rparr>,
            \<lparr>role = Assistant, content = ''Sunny'', timestamp = 1000\<rparr>]"
  by (simp add: generateResponse.simps eval_defs)

subsection \<open>C8: The context window\<close>

text \<open>
  Claim C8. Let \<open>h\<close> be the history at generation time, that is with the caller's new
  message pushed, and let it hold more than ten turns. Then the messages of that attempt
  are the system message followed by the last ten entries of \<open>h\<close> in their order. The
  first conjunct is about one attempt (every provider call is made by one), the last two
  about the first provider call of \<open>generateResponse\<close>.
\<close>

theorem generation_context_is_windowed:
  assumes "activeCalls w sid = Some r"
    and "languageName (language (heap w r)) = Some nm"
    and "h = conversationHistory (heap w r) @ [\<lparr>role = User, content = msg, timestamp = clock w\<rparr>]"
    and "10 < length h"
  shows "llm_calls (snd (generateResponse_try openai sid msg w)) =
           llm_calls w @
           [\<lparr>msg_role = System, msg_content = systemPrompt nm\<rparr> #
            map to_message (drop (length h - 10) h)]
       \<and> length (drop (length h - 10) h) = 10
       \<and> length (llm_calls w) < length (llm_calls (snd (generateResponse openai sid msg 0 w)))
       \<and> llm_calls (snd (generateResponse openai sid msg 0 w)) ! length (llm_calls w) =
           \<lparr>msg_role = System, msg_content = systemPrompt nm\<rparr> #
           map to_message (drop (length h - 10) h)"
proof -
  have one: "llm_calls (snd (generateResponse_try openai sid msg w)) =
           llm_calls w @
           [\<lparr>msg_role = System, msg_content = systemPrompt nm\<rparr> #
            map to_message (drop (length h - 10) h)]"
    using assms(1,2,3)
    by (auto simp: generateResponse_try_def push_turn_def logConversation_def Let_def
                   build_messages_def slice_last_def
             split: option.splits completion.splits)
  have two: "length (drop (length h - 10) h) = 10" using assms(4) by simp
  obtain rest where r: "llm_calls (snd (generateResponse openai sid msg 0 w)) =
           llm_calls w @
           build_messages nm (conversationHistory (heap w r) @ [user_turn msg w]) # rest"
    using first_call_recorded [OF assms(1,2)] by blast
  have three: "length (llm_calls w) < length (llm_calls (snd (generateResponse openai sid msg 0 w)))"
    using r by simp
  have four: "llm_calls (snd (generateResponse openai sid msg 0 w)) ! length (llm_calls w) =
           \<lparr>msg_role = System, msg_content = systemPrompt nm\<rparr> #
           map to_message (drop (length h - 10) h)"
    using r assms(3) by (simp add: build_messages_def slice_last_def user_turn_def)
  show ?thesis using one two three four by simp
qed

text \<open>
  C8 at a session with 15 earlier turns: the context is the system message, the earlier
  turns 7 to 15 and the new message.
\<close>

theorem generation_context_is_windowed_witness:
  "activeCalls world_15 ''CA1'' = Some 0
   \<and> languageName (language (heap world_15 0)) = Some ''English''
   \<and> length (conversationHistory (heap world_15 0)) = 15
   \<and> map msg_role (hd (llm_calls (snd (generateResponse (flaky_provider 0 ''Sunny'') ''CA1'' ''hello'' 0 world_15)))) =
       [System, User, User, User, User, User, User, User, User, User, User]
   \<and> map msg_content (tl (hd (llm_calls (snd (generateResponse (flaky_provider 0 ''Sunny'') ''CA1'' ''hello'' 0 world_15))))) =
       [''t07'', ''t08'', ''t09'', ''t10'', ''t11'', ''t12'', ''t13'', ''t14'', ''t15'', ''hello'']"
proof -
  have a: "activeCalls world_15 ''CA1'' = Some 0" by (simp add: eval_defs)
  have l: "languageName (language (heap world_15 0)) = Some ''English''"
    by (simp add: eval_defs)
  have h: "conversationHistory (heap world_15 0) = prior_turns" by (simp add: eval_defs)
  have c: "clock world_15 = 0" by (simp add: eval_defs)
  have n: "llm_calls world_15 = []" by (simp add: eval_defs)
  have len: "10 < length (prior_turns @ [\<lparr>role = User, content = ''hello'', timestamp = 0\<rparr>])"
    by (simp add: prior_turns_def)
  have hh: "prior_turns @ [\<lparr>role = User, content = ''hello'', timestamp = 0\<rparr>] =
     conversationHistory (heap world_15 0) @ [\<lparr>role = User, content = ''hello'', timestamp = clock world_15\<rparr>]"
    by (simp add: h c)
  show ?thesis
    using generation_context_is_windowed [OF a l hh len, of "flaky_provider 0 ''Sunny''"] a l h n
    by (simp add: prior_turns_def to_message_def hd_conv_nth)
qed

subsection \<open>C9: Low confidence\<close>

text \<open>
  Claim C9. A request to \<open>/voice/process\<close> that carries a call id and has no speech text,
  or a confidence below 0.5, is answered with the request to repeat; the world is left as
  it was, so the provider is not called and no history changes.
\<close>

theorem voice_process_rejects_low_confidence:
  assumes "CallSid body = Some sid" and "sid \<noteq> []"
    and "falsy (SpeechResult body) \<or> Confidence body = Some c \<and> c < 0.5"
  shows "voice_process openai (Some body) w = (Twiml repeat_twiml, w)
       \<and> llm_calls (snd (voice_process openai (Some body) w)) = llm_calls w
       \<and> heap (snd (voice_process openai (Some body) w)) = heap w"
  using assms by (auto simp: voice_process_def low_confidence_def falsy_def split: option.splits)

text \<open>C9 at a confidence of 0.2, and at an empty speech text with confidence 0.9.\<close>

theorem voice_process_rejects_low_confidence_witness:
  "CallSid (turn_body ''CA1'' ''mumble'' 0.2) = Some ''CA1'' \<and> ''CA1'' \<noteq> []
   \<and> Confidence (turn_body ''CA1'' ''mumble'' 0.2) = Some 0.2 \<and> (0.2 :: real) < 0.5
   \<and> voice_process (flaky_provider 0 ''Sunny'') (Some (turn_body ''CA1'' ''mumble'' 0.2)) world_CA1_turn
       = (Twiml repeat_twiml, world_CA1_turn)
   \<and> voice_process (flaky_provider 0 ''Sunny'') (Some (turn_body ''CA1'' [] 0.9)) world_CA1_turn
       = (Twiml repeat_twiml, world_CA1_turn)"
proof -
  have a: "CallSid (turn_body ''CA1'' s c) = Some ''CA1''" for s c by (simp add: turn_body_def)
  have b: "''CA1'' \<noteq> []" by simp
  have c: "falsy (SpeechResult (turn_body ''CA1'' ''mumble'' 0.2)) \<or>
           Confidence (turn_body ''CA1'' ''mumble'' 0.2) = Some 0.2 \<and> (0.2::real) < 0.5"
    by (simp add: turn_body_def)
  have d: "falsy (SpeechResult (turn_body ''CA1'' [] 0.9)) \<or>
           Confidence (turn_body ''CA1'' [] 0.9) = Some 0.9 \<and> (0.9::real) < 0.5"
    by (simp add: turn_body_def falsy_def)
  show ?thesis
    using voice_process_rejects_low_confidence [OF a b c, of "flaky_provider 0 ''Sunny''" world_CA1_turn]
      voice_process_rejects_low_confidence [OF a b d, of "flaky_provider 0 ''Sunny''" world_CA1_turn]
    by (simp add: turn_body_def)
qed

subsection \<open>C10: Ending a call\<close>

text \<open>
  Claim C10. After \<open>endCall\<close> the store has no session for the id, and a second
  \<open>endCall\<close> with the same id changes nothing. On an id without a session \<open>endCall\<close>
  changes nothing at all; on an existing session it sets \<open>isActive\<close> to false and
  \<open>endTime\<close> to the current time in the session object before it removes the entry.
  \<open>endCall\<close> has no exceptional outcome.
\<close>

theorem endCall_removes_and_is_idempotent:
  "getSession (endCall sid w) sid = None
   \<and> endCall sid (endCall sid w) = endCall sid w
   \<and> (case activeCalls w sid of
        None \<Rightarrow> endCall sid w = w
      | Some r \<Rightarrow>
          isActive (heap (endCall sid w) r) = False
          \<and> endTime (heap (endCall sid w) r) = Some (clock w)
          \<and> conversationHistory (heap (endCall sid w) r) = conversationHistory (heap w r))"
proof -
  have gone: "activeCalls (endCall sid w) sid = None"
    by (simp add: endCall_def logCallEvent_def Let_def split: option.splits)
  have again: "endCall sid (endCall sid w) = endCall sid w"
    using gone by (simp add: endCall_def [of sid "endCall sid w"])
  show ?thesis
    using gone again
    by (simp add: getSession_def endCall_def [of sid w] logCallEvent_def Let_def split: option.splits)
qed

text \<open>C10 at the session \<open>CA1\<close> after one turn, and at an unknown id.\<close>

theorem endCall_removes_and_is_idempotent_witness:
  "activeCalls world_CA1_turn ''CA1'' = Some 0
   \<and> getSession (endCall ''CA1'' world_CA1_turn) ''CA1'' = None
   \<and> isActive (heap (endCall ''CA1'' world_CA1_turn) 0) = False
   \<and> endTime (heap (endCall ''CA1'' world_CA1_turn) 0) = Some 0
   \<and> endCall ''CA1'' (endCall ''CA1'' world_CA1_turn) = endCall ''CA1'' world_CA1_turn
   \<and> endCall ''CA404'' initial_world = initial_world"
proof -
  have a: "activeCalls world_CA1_turn ''CA1'' = Some 0"
    by (simp add: generateResponse.simps eval_defs)
  have b: "clock world_CA1_turn = 0"
    by (simp add: generateResponse.simps eval_defs)
  have c: "activeCalls initial_world ''CA404'' = None"
    by (simp add: initial_world_def)
  show ?thesis
    using endCall_removes_and_is_idempotent [of "''CA1''" world_CA1_turn]
      endCall_removes_and_is_idempotent [of "''CA404''" initial_world] a b c
    by simp
qed

end
